theory Spec2Isabelle
  imports Main
begin

section \<open>The store as the two workers use it\<close>

text \<open>
  Both workers talk to one table each through Tortoise ORM query sets. A table is the
  list of its rows; a query set is a table together with the keyword arguments of
  \<^verbatim>\<open>filter(...)\<close>. Every \<^verbatim>\<open>await\<close> of the source is one statement
  against the table: it either raises (a value of \<open>error\<close>) or returns, and a statement
  that raises leaves the table as it was.

  Field values are Python integers and strings. The width of an integer column
  bounds the values a statement may compare the column with: a filter value outside
  the column's range is refused by the store when the statement runs. What arithmetic
  on stored values yields is not bounded in the model. The exceptions are the ORM's
  own: \<^verbatim>\<open>FieldError\<close> (a filter keyword that names no filter of the model),
  \<^verbatim>\<open>OperationalError\<close> (the store refuses the statement),
  \<^verbatim>\<open>DoesNotExist\<close> and \<^verbatim>\<open>MultipleObjectsReturned\<close> (from
  \<^verbatim>\<open>get\<close>), \<^verbatim>\<open>IntegrityError\<close> (a second row with a primary key that
  is already there).
\<close>

datatype error =
  FieldError | OperationalError | DoesNotExist | MultipleObjectsReturned | IntegrityError

text \<open>The handlers return Python dictionaries with string keys: association lists.\<close>

datatype json = JInt int | JStr string

type_synonym response = "(string \<times> json) list"

subsection \<open>Filter keywords\<close>

text \<open>
  A keyword of \<^verbatim>\<open>filter\<close> is looked up in the model's table of filters. That
  table holds, for every field \<open>f\<close>, the key \<open>f\<close> itself (equality) and the keys
  \<open>f__not\<close>, \<open>f__gte\<close>, \<open>f__lte\<close>, \<open>f__gt\<close>, \<open>f__lt\<close>: the field name, two
  underscores, the name of the comparison. The primary key has the same keys once
  more under the alias \<open>pk\<close>. (The ORM has further comparisons, on strings, dates and
  collections, built with the same separator; the workers use none of them.) A
  keyword that is not in the table raises \<^verbatim>\<open>FieldError\<close> when the query is
  built, before anything is sent to the store.
\<close>

datatype lookup = Exact | Not | Gte | Lte | Gt | Lt

fun lookup_holds :: "lookup \<Rightarrow> int \<Rightarrow> int \<Rightarrow> bool" where
  "lookup_holds Exact x v = (x = v)"
| "lookup_holds Not x v = (x \<noteq> v)"
| "lookup_holds Gte x v = (x \<ge> v)"
| "lookup_holds Lte x v = (x \<le> v)"
| "lookup_holds Gt x v = (x > v)"
| "lookup_holds Lt x v = (x < v)"

definition lookup_names :: "(string \<times> lookup) list" where
  "lookup_names =
     [(''not'', Not), (''gte'', Gte), (''lte'', Lte), (''gt'', Gt), (''lt'', Lt)]"

definition filters_for_field :: "string \<Rightarrow> (string \<times> lookup) list" where
  "filters_for_field f =
     (f, Exact) # map (\<lambda>(n, l). (f @ ''__'' @ n, l)) lookup_names"

text \<open>
  The integer columns of a model: the field's name, how to read it off a row, the
  width of the column in bits (\<^verbatim>\<open>IntField\<close> is a signed 32-bit column,
  \<^verbatim>\<open>BigIntField\<close> a signed 64-bit one) and whether the field is the primary key
  (\<^verbatim>\<open>pk=True\<close>). The workers filter on integer fields with integer values only;
  the string fields (\<open>title\<close>, \<open>content\<close>, \<open>name\<close>) have filters of their own,
  keyed the same way, that take strings.
\<close>

type_synonym 'r columns = "(string \<times> ('r \<Rightarrow> int) \<times> nat \<times> bool) list"

definition fits :: "nat \<Rightarrow> int \<Rightarrow> bool" where
  "fits bits v = (- (2 ^ (bits - 1)) \<le> v \<and> v < 2 ^ (bits - 1))"

definition model_filters :: "'r columns \<Rightarrow> (string \<times> ('r \<Rightarrow> int) \<times> nat \<times> lookup) list" where
  "model_filters cols =
     concat (map (\<lambda>(f, g, bits, is_pk).
                    map (\<lambda>(k, l). (k, (g, bits, l)))
                      (filters_for_field f @ (if is_pk then filters_for_field ''pk'' else [])))
               cols)"

definition resolve_kwarg :: "'r columns \<Rightarrow> string \<times> int \<Rightarrow> error + ('r \<Rightarrow> bool)" where
  "resolve_kwarg cols kv =
     (case map_of (model_filters cols) (fst kv) of
        None \<Rightarrow> Inl FieldError
      | Some (g, bits, l) \<Rightarrow> Inr (\<lambda>r. lookup_holds l (g r) (snd kv)))"

text \<open>All keywords of one \<^verbatim>\<open>filter\<close> call are joined by AND, in the order given.\<close>

fun resolve_filters :: "'r columns \<Rightarrow> (string \<times> int) list \<Rightarrow> error + ('r \<Rightarrow> bool)" where
  "resolve_filters cols [] = Inr (\<lambda>r. True)"
| "resolve_filters cols (kv # kvs) =
     (case resolve_kwarg cols kv of
        Inl e \<Rightarrow> Inl e
      | Inr p \<Rightarrow>
          (case resolve_filters cols kvs of
             Inl e \<Rightarrow> Inl e
           | Inr q \<Rightarrow> Inr (\<lambda>r. p r \<and> q r)))"

text \<open>
  Once the query is built, the filter values go to the store as the parameters of the
  statement, each with the type of the column it is compared with. A value that does
  not fit the column makes the statement fail (\<^verbatim>\<open>OperationalError\<close>) before it
  touches a row.
\<close>

definition params_fit :: "'r columns \<Rightarrow> (string \<times> int) list \<Rightarrow> bool" where
  "params_fit cols kwargs =
     list_all (\<lambda>kv. case map_of (model_filters cols) (fst kv) of
                      None \<Rightarrow> True
                    | Some (g, bits, l) \<Rightarrow> fits bits (snd kv)) kwargs"

subsection \<open>Statements\<close>

text \<open>
  \<^verbatim>\<open>Model.filter(**kwargs).update(...)\<close>: one UPDATE statement. The assignments
  are expressions over \<^verbatim>\<open>F(field)\<close>, evaluated by the store on the row as it is
  when the statement runs, so they are a function from the old row to the new one.
  The statement returns the number of rows it matched.
\<close>

definition queryset_update ::
  "'r columns \<Rightarrow> (string \<times> int) list \<Rightarrow> ('r \<Rightarrow> 'r) \<Rightarrow> 'r list \<Rightarrow> error + ('r list \<times> nat)" where
  "queryset_update cols kwargs assign t =
     (case resolve_filters cols kwargs of
        Inl e \<Rightarrow> Inl e
      | Inr p \<Rightarrow>
          if params_fit cols kwargs
          then Inr (map (\<lambda>r. if p r then assign r else r) t, length (filter p t))
          else Inl OperationalError)"

text \<open>
  \<^verbatim>\<open>Model.get(**kwargs)\<close> and \<^verbatim>\<open>Model.filter(**kwargs).get()\<close>: exactly one
  row, or an exception.
\<close>

definition queryset_get :: "'r columns \<Rightarrow> (string \<times> int) list \<Rightarrow> 'r list \<Rightarrow> error + 'r" where
  "queryset_get cols kwargs t =
     (case resolve_filters cols kwargs of
        Inl e \<Rightarrow> Inl e
      | Inr p \<Rightarrow>
          if params_fit cols kwargs
          then (case filter p t of
                  [] \<Rightarrow> Inl DoesNotExist
                | [r] \<Rightarrow> Inr r
                | _ # _ # _ \<Rightarrow> Inl MultipleObjectsReturned)
          else Inl OperationalError)"

text \<open>
  \<^verbatim>\<open>Model.create(id=..., ...)\<close>: one INSERT. The primary key is unique, so a row
  whose key is already in the table is refused.
\<close>

definition model_create :: "('r \<Rightarrow> int) \<Rightarrow> 'r \<Rightarrow> 'r list \<Rightarrow> error + 'r list" where
  "model_create pk r t =
     (if pk r \<in> set (map pk t) then Inl IntegrityError else Inr (t @ [r]))"

section \<open>01-blog-views/worker.py\<close>

text \<open>
  \<^verbatim>\<open>class Post(Model)\<close>: \<open>id\<close> (primary key), \<open>title\<close>, \<open>content\<close>,
  \<open>views\<close>. The field \<open>id\<close> is \<open>post_id\<close> here, since \<open>id\<close> is HOL's identity
  function.
\<close>

record post =
  post_id :: int
  title :: string
  content :: string
  views :: int

definition Post_columns :: "post columns" where
  "Post_columns = [(''id'', post_id, 32, True), (''views'', views, 64, False)]"

text \<open>
  \<^verbatim>\<open>lifespan\<close>, the body of the \<^verbatim>\<open>try\<close>: create the test post; any
  exception is caught and only printed. The result is the table and the lines printed.
\<close>

definition blog_lifespan :: "post list \<Rightarrow> post list \<times> string list" where
  "blog_lifespan t =
     (case model_create post_id
        \<lparr>post_id = 1, title = ''Example blog post'',
         content = ''Hello! This is a blog post'', views = 0\<rparr> t of
        Inr t' \<Rightarrow> (t', [''Creating test blog post...'', ''Test blog post created''])
      | Inl e \<Rightarrow> (t, [''Creating test blog post...'', ''Blog post already exists'']))"

text \<open>\<^verbatim>\<open>GET /post/{post_id}\<close>\<close>

definition get_post :: "post list \<Rightarrow> int \<Rightarrow> post list \<times> (error + response)" where
  "get_post t pid =
     (case queryset_get Post_columns [(''id'', pid)] t of
        Inl e \<Rightarrow> (t, Inl e)
      | Inr p \<Rightarrow>
          (t, Inr [(''post_id'', JInt (post_id p)), (''title'', JStr (title p)),
                   (''content'', JStr (content p)), (''views'', JInt (views p))]))"

text \<open>
  \<^verbatim>\<open>POST /view/{post_id}\<close>, the variant that is not commented out: the UPDATE,
  then the fetch, then the answer.
\<close>

definition view_post :: "post list \<Rightarrow> int \<Rightarrow> post list \<times> (error + response)" where
  "view_post t pid =
     (case queryset_update Post_columns [(''id'', pid)]
             (\<lambda>r. r\<lparr>views := views r + 1\<rparr>) t of
        Inl e \<Rightarrow> (t, Inl e)
      | Inr (t', n) \<Rightarrow>
          (case queryset_get Post_columns [(''id'', pid)] t' of
             Inl e \<Rightarrow> (t', Inl e)
           | Inr p \<Rightarrow> (t', Inr [(''current_views'', JInt (views p))])))"

text \<open>
  The handler gives control back at each \<^verbatim>\<open>await\<close>, so requests that run
  concurrently interleave at the statements. A request is \<open>Pending\<close> before its
  UPDATE, \<open>Updated\<close> between the UPDATE and the fetch, and \<open>Finished\<close> with its
  answer (or the exception it raised) afterwards.
\<close>

datatype task = Pending | Updated | Finished "error + response"

fun view_post_step :: "int \<Rightarrow> post list \<Rightarrow> task \<Rightarrow> post list \<times> task" where
  "view_post_step pid t Pending =
     (case queryset_update Post_columns [(''id'', pid)]
             (\<lambda>r. r\<lparr>views := views r + 1\<rparr>) t of
        Inl e \<Rightarrow> (t, Finished (Inl e))
      | Inr (t', n) \<Rightarrow> (t', Updated))"
| "view_post_step pid t Updated =
     (case queryset_get Post_columns [(''id'', pid)] t of
        Inl e \<Rightarrow> (t, Finished (Inl e))
      | Inr p \<Rightarrow> (t, Finished (Inr [(''current_views'', JInt (views p))])))"
| "view_post_step pid t (Finished x) = (t, Finished x)"



section \<open>02-game-shop/worker.py\<close>

text \<open>
  \<^verbatim>\<open>class Player(Model)\<close>: \<open>id\<close> (primary key, \<open>player_id\<close> here), \<open>name\<close>,
  \<open>money\<close>, \<open>level\<close>.
\<close>

record player =
  player_id :: int
  name :: string
  money :: int
  level :: int

definition Player_columns :: "player columns" where
  "Player_columns =
     [(''id'', player_id, 32, True), (''money'', money, 32, False),
      (''level'', level, 32, False)]"

definition COST :: int where
  "COST = 150"

definition shop_lifespan :: "player list \<Rightarrow> player list \<times> string list" where
  "shop_lifespan t =
     (case model_create player_id
        \<lparr>player_id = 1, name = ''Alice'', money = 1000, level = 1\<rparr> t of
        Inr t' \<Rightarrow> (t', [''Creating test user...'', ''Test user created''])
      | Inl e \<Rightarrow> (t, [''Creating test user...'', ''User already exists'']))"

text \<open>\<^verbatim>\<open>GET /player/{player_id}\<close>\<close>

definition get_info :: "player list \<Rightarrow> int \<Rightarrow> player list \<times> (error + response)" where
  "get_info t pid =
     (case queryset_get Player_columns [(''id'', pid)] t of
        Inl e \<Rightarrow> (t, Inl e)
      | Inr p \<Rightarrow>
          (t, Inr [(''name'', JStr (name p)), (''money'', JInt (money p)),
                   (''level'', JInt (level p))]))"

text \<open>
  \<^verbatim>\<open>POST /upgrade/{player_id}\<close>, the variant that is not commented out. Lines
  90 to 96 are the statement: the keywords of its \<^verbatim>\<open>filter\<close> are \<open>id\<close> and
  \<open>money_gte\<close>, as the source writes them. Lines 98 to 103 turn the number of rows
  the statement reports into the answer.
\<close>

definition upgrade_level_statement :: "player list \<Rightarrow> int \<Rightarrow> error + (player list \<times> nat)" where
  "upgrade_level_statement t pid =
     queryset_update Player_columns [(''id'', pid), (''money_gte'', COST)]
       (\<lambda>r. r\<lparr>level := level r + 1, money := money r - COST\<rparr>) t"

definition upgrade_level_answer :: "player list \<Rightarrow> int \<Rightarrow> nat \<Rightarrow> player list \<times> (error + response)" where
  "upgrade_level_answer t pid rows_updated =
     (if rows_updated = 0 then (t, Inr [(''error'', JStr ''Not enough money'')])
      else
        (case queryset_get Player_columns [(''id'', pid)] t of
           Inl e \<Rightarrow> (t, Inl e)
         | Inr p \<Rightarrow>
             (t, Inr [(''user_id'', JInt (player_id p)), (''money'', JInt (money p)),
                      (''level'', JInt (level p))])))"

definition upgrade_level :: "player list \<Rightarrow> int \<Rightarrow> player list \<times> (error + response)" where
  "upgrade_level t pid =
     (case upgrade_level_statement t pid of
        Inl e \<Rightarrow> (t, Inl e)
      | Inr (t', rows_updated) \<Rightarrow> upgrade_level_answer t' pid rows_updated)"

section \<open>Requests in sequence\<close>

text \<open>
  Requests that do not overlap: each handler runs on the table the one before left.
  The answers are kept in the order of the requests.
\<close>

fun sequentially :: "('t \<Rightarrow> 't \<times> 'a) list \<Rightarrow> 't \<Rightarrow> 't \<times> 'a list" where
  "sequentially [] t = (t, [])"
| "sequentially (h # hs) t =
     (case h t of
        (t', a) \<Rightarrow> (case sequentially hs t' of (t'', as) \<Rightarrow> (t'', a # as)))"

text \<open>The four operations the two services expose, on the pair of their tables.\<close>

datatype request = GetPost int | ViewPost int | GetInfo int | UpgradeLevel int

fun handle :: "request \<Rightarrow> post list \<times> player list \<Rightarrow> (post list \<times> player list) \<times> (error + response)" where
  "handle (GetPost pid) (ps, qs) = (case get_post ps pid of (ps', a) \<Rightarrow> ((ps', qs), a))"
| "handle (ViewPost pid) (ps, qs) = (case view_post ps pid of (ps', a) \<Rightarrow> ((ps', qs), a))"
| "handle (GetInfo pid) (ps, qs) = (case get_info qs pid of (qs', a) \<Rightarrow> ((ps, qs'), a))"
| "handle (UpgradeLevel pid) (ps, qs) = (case upgrade_level qs pid of (qs', a) \<Rightarrow> ((ps, qs'), a))"

text \<open>
  A debit succeeded when the handler answered and the answer is not the rejection.
\<close>

fun succeeded :: "error + response \<Rightarrow> bool" where
  "succeeded (Inl e) = False"
| "succeeded (Inr a) = (map_of a ''error'' = None)"

section \<open>Facts about the store\<close>

lemma filter_map_commute:
  "(\<And>x. P (g x) = P x) \<Longrightarrow> filter P (map g t) = map g (filter P t)"
  by (induction t) simp_all

lemma update_no_match:
  "filter P t = [] \<Longrightarrow> map (\<lambda>x. if P x then f x else x) t = t"
  by (induction t) (auto split: if_splits)

text \<open>Which keywords the two models know.\<close>

lemma fits_32: "fits 32 v \<longleftrightarrow> - 2147483648 \<le> v \<and> v \<le> 2147483647"
  by (auto simp: fits_def)

lemma post_id_filter: "map_of (model_filters Post_columns) ''id'' = Some (post_id, 32, Exact)"
  by (simp add: model_filters_def Post_columns_def filters_for_field_def)

lemma player_id_filter:
  "map_of (model_filters Player_columns) ''id'' = Some (player_id, 32, Exact)"
  by (simp add: model_filters_def Player_columns_def filters_for_field_def)

lemma money_gte_unknown: "map_of (model_filters Player_columns) ''money_gte'' = None"
  by (simp add: model_filters_def Player_columns_def filters_for_field_def lookup_names_def)

lemma money_dunder_gte_filter:
  "map_of (model_filters Player_columns) ''money__gte'' = Some (money, 32, Gte)"
  by (simp add: model_filters_def Player_columns_def filters_for_field_def lookup_names_def)

lemma resolve_post_id:
  "resolve_filters Post_columns [(''id'', pid)] = Inr (\<lambda>r. post_id r = pid)"
  by (simp add: resolve_kwarg_def post_id_filter)

lemma resolve_player_id:
  "resolve_filters Player_columns [(''id'', pid)] = Inr (\<lambda>r. player_id r = pid)"
  by (simp add: resolve_kwarg_def player_id_filter)

lemma params_fit_post_id: "params_fit Post_columns [(''id'', pid)] = fits 32 pid"
  by (simp add: params_fit_def post_id_filter)

lemma params_fit_player_id: "params_fit Player_columns [(''id'', pid)] = fits 32 pid"
  by (simp add: params_fit_def player_id_filter)

lemma post_get:
  "queryset_get Post_columns [(''id'', pid)] t =
     (if fits 32 pid
      then (case filter (\<lambda>r. post_id r = pid) t of
              [] \<Rightarrow> Inl DoesNotExist | [r] \<Rightarrow> Inr r
            | _ # _ # _ \<Rightarrow> Inl MultipleObjectsReturned)
      else Inl OperationalError)"
  by (simp add: queryset_get_def resolve_post_id params_fit_post_id
      del: resolve_filters.simps)

lemma player_get:
  "queryset_get Player_columns [(''id'', pid)] t =
     (if fits 32 pid
      then (case filter (\<lambda>r. player_id r = pid) t of
              [] \<Rightarrow> Inl DoesNotExist | [r] \<Rightarrow> Inr r
            | _ # _ # _ \<Rightarrow> Inl MultipleObjectsReturned)
      else Inl OperationalError)"
  by (simp add: queryset_get_def resolve_player_id params_fit_player_id
      del: resolve_filters.simps)

lemma post_get_Inr:
  "queryset_get Post_columns [(''id'', pid)] t = Inr r \<longleftrightarrow>
     fits 32 pid \<and> filter (\<lambda>x. post_id x = pid) t = [r]"
  by (simp add: post_get split: list.splits)

lemma player_get_Inr:
  "queryset_get Player_columns [(''id'', pid)] t = Inr r \<longleftrightarrow>
     fits 32 pid \<and> filter (\<lambda>x. player_id x = pid) t = [r]"
  by (simp add: player_get split: list.splits)

lemma post_update:
  "queryset_update Post_columns [(''id'', pid)] f t =
     (if fits 32 pid
      then Inr (map (\<lambda>r. if post_id r = pid then f r else r) t,
                length (filter (\<lambda>r. post_id r = pid) t))
      else Inl OperationalError)"
  by (simp add: queryset_update_def resolve_post_id params_fit_post_id
      del: resolve_filters.simps)

text \<open>
  The primary key is unique, so in a table whose keys are distinct every row whose
  key fits the column is the one row that \<^verbatim>\<open>get(id=...)\<close> finds under its key;
  \<^verbatim>\<open>create\<close> keeps the keys distinct.
\<close>

lemma unique_row:
  "distinct (map pk t) \<Longrightarrow> r \<in> set t \<Longrightarrow> filter (\<lambda>x. pk x = pk r) t = [r]"
proof (induction t)
  case Nil
  then show ?case by simp
next
  case (Cons a t)
  show ?case
  proof (cases "a = r")
    case True
    with Cons.prems have "pk r \<notin> pk ` set t" by simp
    then have "filter (\<lambda>x. pk x = pk r) t = []"
      by (force simp: filter_empty_conv image_iff)
    with True show ?thesis by simp
  next
    case False
    with Cons.prems have r: "r \<in> set t" and d: "distinct (map pk t)" and "pk a \<notin> pk ` set t"
      by simp_all
    then have "pk a \<noteq> pk r" by auto
    with Cons.IH[OF d r] show ?thesis by simp
  qed
qed

lemma post_get_row:
  "distinct (map post_id t) \<Longrightarrow> r \<in> set t \<Longrightarrow> fits 32 (post_id r) \<Longrightarrow>
     queryset_get Post_columns [(''id'', post_id r)] t = Inr r"
  by (simp add: post_get_Inr unique_row)

lemma player_get_row:
  "distinct (map player_id t) \<Longrightarrow> r \<in> set t \<Longrightarrow> fits 32 (player_id r) \<Longrightarrow>
     queryset_get Player_columns [(''id'', player_id r)] t = Inr r"
  by (simp add: player_get_Inr unique_row)

lemma model_create_distinct:
  "distinct (map pk t) \<Longrightarrow> model_create pk r t = Inr t' \<Longrightarrow> distinct (map pk t')"
  by (auto simp: model_create_def split: if_splits)

section \<open>Start-up\<close>

lemma blog_lifespan_exists:
  "1 \<in> post_id ` set t \<Longrightarrow>
     blog_lifespan t = (t, [''Creating test blog post...'', ''Blog post already exists''])"
  by (simp add: blog_lifespan_def model_create_def)

lemma blog_lifespan_has_row: "1 \<in> post_id ` set (fst (blog_lifespan t))"
  by (auto simp: blog_lifespan_def model_create_def)

lemma shop_lifespan_exists:
  "1 \<in> player_id ` set t \<Longrightarrow>
     shop_lifespan t = (t, [''Creating test user...'', ''User already exists''])"
  by (simp add: shop_lifespan_def model_create_def)

lemma shop_lifespan_has_row: "1 \<in> player_id ` set (fst (shop_lifespan t))"
  by (auto simp: shop_lifespan_def model_create_def)

text \<open>
  C8. Running the start-up row creation against a table that already holds the row
  raises nothing that escapes: the INSERT is refused (\<^verbatim>\<open>IntegrityError\<close>), the
  exception is caught, the "already exists" line is printed and the table, with
  whatever values its rows have, is returned as it was. This holds for both workers,
  and so running the start-up code a second time changes nothing, from any table.
\<close>

theorem lifespan_again:
  "(1 \<in> post_id ` set ps \<longrightarrow>
      model_create post_id
        \<lparr>post_id = 1, title = ''Example blog post'',
         content = ''Hello! This is a blog post'', views = 0\<rparr> ps = Inl IntegrityError
      \<and> blog_lifespan ps = (ps, [''Creating test blog post...'', ''Blog post already exists'']))
   \<and> (1 \<in> player_id ` set qs \<longrightarrow>
      model_create player_id
        \<lparr>player_id = 1, name = ''Alice'', money = 1000, level = 1\<rparr> qs = Inl IntegrityError
      \<and> shop_lifespan qs = (qs, [''Creating test user...'', ''User already exists'']))
   \<and> blog_lifespan (fst (blog_lifespan ps0))
       = (fst (blog_lifespan ps0), [''Creating test blog post...'', ''Blog post already exists''])
   \<and> shop_lifespan (fst (shop_lifespan qs0))
       = (fst (shop_lifespan qs0), [''Creating test user...'', ''User already exists''])"
proof -
  have a: "1 \<in> post_id ` set ps \<longrightarrow>
      model_create post_id
        \<lparr>post_id = 1, title = ''Example blog post'',
         content = ''Hello! This is a blog post'', views = 0\<rparr> ps = Inl IntegrityError
      \<and> blog_lifespan ps = (ps, [''Creating test blog post...'', ''Blog post already exists''])"
    by (simp add: blog_lifespan_exists) (simp add: model_create_def)
  have b: "1 \<in> player_id ` set qs \<longrightarrow>
      model_create player_id
        \<lparr>player_id = 1, name = ''Alice'', money = 1000, level = 1\<rparr> qs = Inl IntegrityError
      \<and> shop_lifespan qs = (qs, [''Creating test user...'', ''User already exists''])"
    by (simp add: shop_lifespan_exists) (simp add: model_create_def)
  have c: "blog_lifespan (fst (blog_lifespan ps0))
       = (fst (blog_lifespan ps0), [''Creating test blog post...'', ''Blog post already exists''])"
    by (rule blog_lifespan_exists) (rule blog_lifespan_has_row)
  have d: "shop_lifespan (fst (shop_lifespan qs0))
       = (fst (shop_lifespan qs0), [''Creating test user...'', ''User already exists''])"
    by (rule shop_lifespan_exists) (rule shop_lifespan_has_row)
  from a b c d show ?thesis by blast
qed

theorem lifespan_again_witness:
  "1 \<in> post_id ` set
     [\<lparr>post_id = 1, title = ''Example blog post'',
       content = ''Hello! This is a blog post'', views = 41\<rparr>]
   \<and> blog_lifespan
       [\<lparr>post_id = 1, title = ''Example blog post'',
         content = ''Hello! This is a blog post'', views = 41\<rparr>]
     = ([\<lparr>post_id = 1, title = ''Example blog post'',
          content = ''Hello! This is a blog post'', views = 41\<rparr>],
        [''Creating test blog post...'', ''Blog post already exists''])
   \<and> 1 \<in> player_id ` set [\<lparr>player_id = 1, name = ''Alice'', money = 100, level = 7\<rparr>]
   \<and> shop_lifespan [\<lparr>player_id = 1, name = ''Alice'', money = 100, level = 7\<rparr>]
     = ([\<lparr>player_id = 1, name = ''Alice'', money = 100, level = 7\<rparr>],
        [''Creating test user...'', ''User already exists''])"
  using lifespan_again
    [of "[\<lparr>post_id = 1, title = ''Example blog post'',
          content = ''Hello! This is a blog post'', views = 41\<rparr>]"
        "[\<lparr>player_id = 1, name = ''Alice'', money = 100, level = 7\<rparr>]" "[]" "[]"]
  by simp

section \<open>The view handler\<close>


text \<open>An identifier outside the column's range: the UPDATE is refused.\<close>

lemma view_post_out_of_range:
  "\<not> fits 32 pid \<Longrightarrow> view_post t pid = (t, Inl OperationalError)"
  by (simp add: view_post_def post_update)

lemma view_post_preserves_other:
  "fst (view_post t pid) =
     (if fits 32 pid
      then map (\<lambda>x. if post_id x = pid then x\<lparr>views := views x + 1\<rparr> else x) t
      else t)"
  by (simp add: view_post_def post_update post_get split: list.splits)

lemma view_post_ids: "map post_id (fst (view_post t pid)) = map post_id t"
  by (simp add: view_post_preserves_other comp_def)




text \<open>
  C10. For an identifier within the range of the 32-bit \<open>id\<close> column that no row of
  the table has, \<^verbatim>\<open>POST /view/{id}\<close> updates no row (the statement reports 0
  rows), then the fetch raises \<^verbatim>\<open>DoesNotExist\<close>: the request fails instead of
  answering with a \<open>views\<close> value, and the table is as it was.
\<close>

theorem view_missing_post_in_range:
  assumes "- 2147483648 \<le> pid" and "pid \<le> 2147483647"
    and "pid \<notin> post_id ` set t"
  shows "queryset_update Post_columns [(''id'', pid)] (\<lambda>r. r\<lparr>views := views r + 1\<rparr>) t
           = Inr (t, 0)
       \<and> view_post t pid = (t, Inl DoesNotExist)"
proof -
  from assms(1,2) have fit: "fits 32 pid"
    by (simp add: fits_32)
  from assms(3) have f: "filter (\<lambda>x. post_id x = pid) t = []"
    by (auto simp: filter_empty_conv)
  have u: "queryset_update Post_columns [(''id'', pid)] (\<lambda>r. r\<lparr>views := views r + 1\<rparr>) t
           = Inr (t, 0)"
    by (simp add: post_update fit f update_no_match[OF f])
  have "view_post t pid = (t, Inl DoesNotExist)"
    by (simp add: view_post_def u post_get fit f)
  with u show ?thesis by simp
qed

theorem view_missing_post_in_range_witness:
  "- 2147483648 \<le> (2 :: int) \<and> (2 :: int) \<le> 2147483647
   \<and> (2 :: int) \<notin> post_id ` set
     [\<lparr>post_id = 1, title = ''Example blog post'',
       content = ''Hello! This is a blog post'', views = 0\<rparr>]
   \<and> view_post
       [\<lparr>post_id = 1, title = ''Example blog post'',
         content = ''Hello! This is a blog post'', views = 0\<rparr>] 2
     = ([\<lparr>post_id = 1, title = ''Example blog post'',
          content = ''Hello! This is a blog post'', views = 0\<rparr>], Inl DoesNotExist)"
proof -
  have h1: "- 2147483648 \<le> (2 :: int)" by simp
  have h2: "(2 :: int) \<le> 2147483647" by simp
  have h3: "(2 :: int) \<notin> post_id ` set
     [\<lparr>post_id = 1, title = ''Example blog post'',
       content = ''Hello! This is a blog post'', views = 0\<rparr>]"
    by simp
  show ?thesis
    using h3 view_missing_post_in_range [OF h1 h2 h3] by simp
qed

text \<open>
  Without the range the statement of C10 fails: 2147483648 names no row of the table
  the start-up code creates, and \<^verbatim>\<open>POST /view/2147483648\<close> does not get as far
  as the fetch. The UPDATE itself is refused, so the request ends with
  \<^verbatim>\<open>OperationalError\<close>, not with \<^verbatim>\<open>DoesNotExist\<close>. The table is as it was.
\<close>

theorem view_missing_post_out_of_range:
  "(2147483648 :: int) \<notin> post_id ` set
     [\<lparr>post_id = 1, title = ''Example blog post'',
       content = ''Hello! This is a blog post'', views = 0\<rparr>]
   \<and> view_post_step 2147483648
       [\<lparr>post_id = 1, title = ''Example blog post'',
         content = ''Hello! This is a blog post'', views = 0\<rparr>] Pending
     = ([\<lparr>post_id = 1, title = ''Example blog post'',
          content = ''Hello! This is a blog post'', views = 0\<rparr>],
        Finished (Inl OperationalError))
   \<and> view_post
       [\<lparr>post_id = 1, title = ''Example blog post'',
         content = ''Hello! This is a blog post'', views = 0\<rparr>] 2147483648
     = ([\<lparr>post_id = 1, title = ''Example blog post'',
          content = ''Hello! This is a blog post'', views = 0\<rparr>], Inl OperationalError)
   \<and> view_post
       [\<lparr>post_id = 1, title = ''Example blog post'',
         content = ''Hello! This is a blog post'', views = 0\<rparr>] 2147483648
     \<noteq> ([\<lparr>post_id = 1, title = ''Example blog post'',
          content = ''Hello! This is a blog post'', views = 0\<rparr>], Inl DoesNotExist)"
  by (simp add: view_post_def post_update fits_32)

section \<open>View requests that overlap\<close>

text \<open>
  The sequential handler is the two steps of a request run one after the other.
\<close>

lemma view_post_as_steps:
  "(case view_post_step pid t Pending of (t1, s1) \<Rightarrow> view_post_step pid t1 s1)
     = (fst (view_post t pid), Finished (snd (view_post t pid)))"
  by (simp add: view_post_def post_update split: sum.splits)








section \<open>The upgrade handler\<close>

text \<open>
  The second keyword of the statement's filter, \<open>money_gte\<close>, is no filter of
  \<open>Player\<close>: the comparison is spelled \<open>money__gte\<close>. So the statement raises
  whatever the table holds, and the handler with it.
\<close>

lemma upgrade_level_statement_raises: "upgrade_level_statement t pid = Inl FieldError"
  by (simp add: upgrade_level_statement_def queryset_update_def resolve_kwarg_def
      money_gte_unknown player_id_filter)

lemma upgrade_level_raises: "upgrade_level t pid = (t, Inl FieldError)"
  by (simp add: upgrade_level_def upgrade_level_statement_raises)

text \<open>
  With the keyword spelled \<open>money__gte\<close> the same statement debits Alice once: the
  filter layer does select and update rows.
\<close>

lemma dunder_gte_statement_debits:
  "queryset_update Player_columns [(''id'', 1), (''money__gte'', COST)]
     (\<lambda>r. r\<lparr>level := level r + 1, money := money r - COST\<rparr>)
     [\<lparr>player_id = 1, name = ''Alice'', money = 1000, level = 1\<rparr>]
   = Inr ([\<lparr>player_id = 1, name = ''Alice'', money = 850, level = 2\<rparr>], 1)"
  by (simp add: queryset_update_def resolve_kwarg_def params_fit_def fits_32
      money_dunder_gte_filter player_id_filter COST_def)

text \<open>
  C1. The claim: the statement of \<^verbatim>\<open>POST /upgrade/{id}\<close> selects the rows with
  \<open>id = given_id\<close> and \<open>money \<ge> COST\<close>, debits \<open>COST\<close> and raises \<open>level\<close> by one
  on the matched row, and returns the number of rows affected, 0 or 1.
  On Alice's row (money 1000, level 1) the statement returns no count: it raises
  \<^verbatim>\<open>FieldError\<close>, the row keeps money 1000 and level 1, and the handler raises too.
\<close>

theorem upgrade_level_statement_alice:
  "upgrade_level_statement [\<lparr>player_id = 1, name = ''Alice'', money = 1000, level = 1\<rparr>] 1
     = Inl FieldError
   \<and> upgrade_level [\<lparr>player_id = 1, name = ''Alice'', money = 1000, level = 1\<rparr>] 1
     = ([\<lparr>player_id = 1, name = ''Alice'', money = 1000, level = 1\<rparr>], Inl FieldError)"
  by (simp add: upgrade_level_statement_raises upgrade_level_raises)

text \<open>
  C2. The claim: of any sequence of debit requests against a row with balance \<open>B\<close>,
  exactly \<open>B div 150\<close> succeed and the final balance is \<open>B\<close> minus 150 for each.
  Seven requests in sequence against Alice's row (balance 1000, and 1000 div 150 = 6):
  every one raises \<^verbatim>\<open>FieldError\<close>, none succeeds, the balance stays 1000.
\<close>

theorem seven_upgrades_none_succeeds:
  "sequentially
     [\<lambda>t. upgrade_level t 1, \<lambda>t. upgrade_level t 1, \<lambda>t. upgrade_level t 1,
      \<lambda>t. upgrade_level t 1, \<lambda>t. upgrade_level t 1, \<lambda>t. upgrade_level t 1,
      \<lambda>t. upgrade_level t 1]
     [\<lparr>player_id = 1, name = ''Alice'', money = 1000, level = 1\<rparr>]
   = ([\<lparr>player_id = 1, name = ''Alice'', money = 1000, level = 1\<rparr>],
      [Inl FieldError, Inl FieldError, Inl FieldError, Inl FieldError,
       Inl FieldError, Inl FieldError, Inl FieldError])
   \<and> filter succeeded
       [Inl FieldError, Inl FieldError, Inl FieldError, Inl FieldError,
        Inl FieldError, Inl FieldError, Inl FieldError] = []
   \<and> (1000 :: int) div COST = 6"
  by (simp add: upgrade_level_raises COST_def)

text \<open>
  C3. The claim: a debit request against a row whose balance is below the cost is
  rejected with 0 rows affected, and money and level stay as they were.
  On a row with money 100 and level 7 the statement does not report 0 rows: it raises
  \<^verbatim>\<open>FieldError\<close>, and the handler raises instead of answering with the rejection.
  The row does stay as it was.
\<close>

theorem upgrade_level_poor_row_raises:
  "upgrade_level_statement [\<lparr>player_id = 1, name = ''Alice'', money = 100, level = 7\<rparr>] 1
     \<noteq> Inr ([\<lparr>player_id = 1, name = ''Alice'', money = 100, level = 7\<rparr>], 0)
   \<and> upgrade_level [\<lparr>player_id = 1, name = ''Alice'', money = 100, level = 7\<rparr>] 1
     = ([\<lparr>player_id = 1, name = ''Alice'', money = 100, level = 7\<rparr>], Inl FieldError)"
  by (simp add: upgrade_level_statement_raises upgrade_level_raises)

text \<open>
  C4. The claim: from money 1000 and level 1, six debit calls in sequence succeed and
  leave money 100 and level 7; the seventh is rejected with
  \<^verbatim>\<open>{"error": "Not enough money"}\<close>.
  On the table the start-up code creates, the first call already raises
  \<^verbatim>\<open>FieldError\<close> and leaves money 1000 and level 1.
\<close>

theorem first_upgrade_after_startup_raises:
  "fst (shop_lifespan []) = [\<lparr>player_id = 1, name = ''Alice'', money = 1000, level = 1\<rparr>]
   \<and> upgrade_level (fst (shop_lifespan [])) 1
     = ([\<lparr>player_id = 1, name = ''Alice'', money = 1000, level = 1\<rparr>], Inl FieldError)"
  by (simp add: upgrade_level_raises shop_lifespan_def model_create_def)

text \<open>
  Lines 98 to 99 taken by themselves: given a count of zero, the answer is the
  rejection, returned as a value.
\<close>

lemma upgrade_level_answer_zero_rows:
  "upgrade_level_answer t pid 0 = (t, Inr [(''error'', JStr ''Not enough money'')])"
  by (simp add: upgrade_level_answer_def)

text \<open>
  C5. The claim: whenever the update reports zero affected rows the handler returns
  \<^verbatim>\<open>{"error": "Not enough money"}\<close> as an ordinary result, also when the
  identifier names no row, and never raises for this case.
  For identifier 99, which no player has, on the table with Alice's row: the statement
  reports no count at all, it raises \<^verbatim>\<open>FieldError\<close>, and the handler raises with
  it instead of returning the dictionary.
\<close>

theorem upgrade_level_missing_id_raises:
  "(99 :: int) \<notin> player_id ` set [\<lparr>player_id = 1, name = ''Alice'', money = 1000, level = 1\<rparr>]
   \<and> upgrade_level_statement [\<lparr>player_id = 1, name = ''Alice'', money = 1000, level = 1\<rparr>] 99
     = Inl FieldError
   \<and> upgrade_level [\<lparr>player_id = 1, name = ''Alice'', money = 1000, level = 1\<rparr>] 99
     = ([\<lparr>player_id = 1, name = ''Alice'', money = 1000, level = 1\<rparr>], Inl FieldError)
   \<and> snd (upgrade_level [\<lparr>player_id = 1, name = ''Alice'', money = 1000, level = 1\<rparr>] 99)
     \<noteq> Inr [(''error'', JStr ''Not enough money'')]"
  by (simp add: upgrade_level_statement_raises upgrade_level_raises)

section \<open>Every sequence of requests\<close>

lemma get_post_table: "fst (get_post t pid) = t"
  by (simp add: get_post_def split: sum.splits)

lemma get_info_table: "fst (get_info t pid) = t"
  by (simp add: get_info_def split: sum.splits)

lemma view_post_other_row:
  assumes "filter (\<lambda>x. post_id x = p) t = [r]"
  shows "filter (\<lambda>x. post_id x = p) (fst (view_post t pid))
           = [r\<lparr>views := views r + (if pid = p \<and> fits 32 pid then 1 else 0)\<rparr>]"
proof -
  let ?g = "\<lambda>x. if post_id x = pid then x\<lparr>views := views x + 1\<rparr> else x"
  have idr: "post_id r = p"
    using assms by (metis (mono_tags, lifting) filter_eq_Cons_iff)
  have "filter (\<lambda>x. post_id x = p) (map ?g t) = map ?g (filter (\<lambda>x. post_id x = p) t)"
    by (rule filter_map_commute) simp
  then show ?thesis
    using assms idr by (simp add: view_post_preserves_other)
qed

lemma handle_players: "snd (fst (handle rq (ps, qs))) = qs"
  by (cases rq) (simp_all add: split_beta get_info_table upgrade_level_raises)

lemma handle_upgrade_answer: "snd (handle (UpgradeLevel pid) (ps, qs)) = Inl FieldError"
  by (simp add: upgrade_level_raises)

lemma handle_views:
  assumes "fits 32 p" and "filter (\<lambda>x. post_id x = p) ps = [r]"
  shows "filter (\<lambda>x. post_id x = p) (fst (fst (handle rq (ps, qs))))
           = [r\<lparr>views := views r + (if rq = ViewPost p then 1 else 0)\<rparr>]"
proof (cases rq)
  case (GetPost pid)
  with assms show ?thesis by (simp add: split_beta get_post_table)
next
  case (ViewPost pid)
  with view_post_other_row[OF assms(2), of pid] assms(1) show ?thesis
    by (auto simp: split_beta)
next
  case (GetInfo pid)
  with assms show ?thesis by (simp add: split_beta)
next
  case (UpgradeLevel pid)
  with assms show ?thesis by (simp add: split_beta)
qed

lemma sequentially_Cons:
  "sequentially (h # hs) s =
     (fst (sequentially hs (fst (h s))), snd (h s) # snd (sequentially hs (fst (h s))))"
  by (simp add: split_beta)

text \<open>
  The views of a post, over every sequence of the four operations: the value at the
  start plus one for each view request for that post, and nothing else about the row
  changes.
\<close>

lemma sequentially_views:
  assumes fit: "fits 32 p"
  shows "filter (\<lambda>x. post_id x = p) ps = [r] \<Longrightarrow>
         filter (\<lambda>x. post_id x = p) (fst (fst (sequentially (map handle reqs) (ps, qs))))
           = [r\<lparr>views := views r + int (count_list reqs (ViewPost p))\<rparr>]"
proof (induction reqs arbitrary: ps qs r)
  case Nil
  then show ?case by simp
next
  case (Cons rq reqs)
  obtain ps1 qs1 where h: "fst (handle rq (ps, qs)) = (ps1, qs1)"
    by (cases "fst (handle rq (ps, qs))")
  have f1: "filter (\<lambda>x. post_id x = p) ps1
              = [r\<lparr>views := views r + (if rq = ViewPost p then 1 else 0)\<rparr>]"
    using handle_views[OF fit Cons.prems, of rq qs] h by simp
  show ?case
    using Cons.IH[OF f1, of qs1]
    by (simp add: sequentially_Cons h add.assoc del: sequentially.simps)
qed

lemma views_move_with_view_requests:
  assumes "queryset_get Post_columns [(''id'', p)] ps = Inr r"
  shows "queryset_get Post_columns [(''id'', p)]
           (fst (fst (sequentially (map handle reqs) (ps, qs))))
         = Inr (r\<lparr>views := views r + int (count_list reqs (ViewPost p))\<rparr>)"
proof -
  from assms have fit: "fits 32 p" and f: "filter (\<lambda>x. post_id x = p) ps = [r]"
    by (simp_all add: post_get_Inr)
  show ?thesis
    by (simp add: post_get_Inr fit sequentially_views[OF fit f] del: sequentially.simps)
qed

text \<open>
  The players table, over every sequence of the four operations: it never changes,
  and no upgrade request in the sequence succeeds.
\<close>

lemma sequentially_players:
  "snd (fst (sequentially (map handle reqs) (ps, qs))) = qs"
proof (induction reqs arbitrary: ps)
  case Nil
  show ?case by simp
next
  case (Cons rq reqs)
  obtain ps1 where h: "fst (handle rq (ps, qs)) = (ps1, qs)"
    using handle_players[of rq ps qs] by (cases "fst (handle rq (ps, qs))") simp
  show ?case
    using Cons.IH[of ps1] by (simp add: sequentially_Cons h del: sequentially.simps)
qed

lemma sequentially_no_debit:
  "filter (\<lambda>(rq, a). rq = UpgradeLevel q \<and> succeeded a)
     (zip reqs (snd (sequentially (map handle reqs) (ps, qs)))) = []"
proof (induction reqs arbitrary: ps qs)
  case Nil
  show ?case by simp
next
  case (Cons rq reqs)
  obtain ps1 qs1 where h: "fst (handle rq (ps, qs)) = (ps1, qs1)"
    by (cases "fst (handle rq (ps, qs))")
  have a: "\<not> (rq = UpgradeLevel q \<and> succeeded (snd (handle rq (ps, qs))))"
    using handle_upgrade_answer[of q ps qs] by auto
  show ?case
    using Cons.IH[of ps1 qs1] a
    by (simp add: sequentially_Cons h del: sequentially.simps)
qed


end
